theory Spec2Isabelle
  imports Complex_Main
begin

section \<open>Python values\<close>

text \<open>
  A Python \<open>str\<close> is modelled by its UTF-8 encoding as a \<open>string\<close>. The program
  compares strings for equality and compares \<open>len\<close> of a string with 0; both agree
  on the encoding and on the code points.
\<close>

text \<open>
  A float as \<open>response.json()\<close> can produce it: a finite value, given by the
  rational it denotes, or one of \<open>NaN\<close>, \<open>Infinity\<close>, \<open>-Infinity\<close>.
\<close>

datatype pyfloat = Finite rat | NonFinite

text \<open>
  The values \<open>response.json()\<close> returns. \<open>JObj kvs\<close> is the dict whose value at
  key \<open>k\<close> is \<open>map_of kvs k\<close>.
\<close>

datatype json =
    JNull
  | JBool bool
  | JInt int
  | JFloat pyfloat
  | JStr string
  | JArr "json list"
  | JObj "(string \<times> json) list"

text \<open>
  The exceptions of the program: the domain error \<open>ApiError\<close> with its argument,
  and the raw exceptions of the operations on values.
\<close>

datatype pyexn =
    ApiError json
  | KeyError string
  | TypeError
  | AttributeError

text \<open>\<open>v[k]\<close> for a string key \<open>k\<close>: only a dict takes it.\<close>

fun subscript :: "json \<Rightarrow> string \<Rightarrow> pyexn + json" where
  "subscript (JObj kvs) k =
     (case map_of kvs k of None \<Rightarrow> Inl (KeyError k) | Some v \<Rightarrow> Inr v)"
| "subscript _ k = Inl TypeError"

text \<open>\<open>v.get(k)\<close>: \<open>None\<close> for a missing key; only a dict has the method.\<close>

fun py_get :: "json \<Rightarrow> string \<Rightarrow> pyexn + json" where
  "py_get (JObj kvs) k =
     (case map_of kvs k of None \<Rightarrow> Inr JNull | Some v \<Rightarrow> Inr v)"
| "py_get _ k = Inl AttributeError"

text \<open>\<open>v == n\<close> for an int \<open>n\<close>: numbers compare by value, \<open>True\<close> is 1 and \<open>False\<close> is 0.\<close>

fun py_eq_int :: "json \<Rightarrow> int \<Rightarrow> bool" where
  "py_eq_int (JInt i) n = (i = n)"
| "py_eq_int (JBool b) n = ((if b then 1 else 0) = n)"
| "py_eq_int (JFloat (Finite q)) n = (q = of_int n)"
| "py_eq_int _ n = False"

text \<open>The truth value of \<open>v\<close> in a condition.\<close>

fun truthy :: "json \<Rightarrow> bool" where
  "truthy JNull = False"
| "truthy (JBool b) = b"
| "truthy (JInt i) = (i \<noteq> 0)"
| "truthy (JFloat (Finite q)) = (q \<noteq> 0)"
| "truthy (JFloat NonFinite) = True"
| "truthy (JStr s) = (s \<noteq> [])"
| "truthy (JArr xs) = (xs \<noteq> [])"
| "truthy (JObj kvs) = (kvs \<noteq> [])"

text \<open>
  \<open>len(v)\<close>: defined on strings, lists and dicts. On a string it is the length of the
  encoding, which is 0 exactly when the string is empty.
\<close>

fun py_len :: "json \<Rightarrow> pyexn + nat" where
  "py_len (JStr s) = Inr (length s)"
| "py_len (JArr xs) = Inr (length xs)"
| "py_len (JObj kvs) = Inr (length (remdups (map fst kvs)))"
| "py_len _ = Inl TypeError"

section \<open>The program state and its environment\<close>

text \<open>
  What a widget or a toast is given: a string literal of the source, \<open>str(e)\<close> of a
  caught \<open>ApiError(v)\<close>, the f-string around \<open>queue_len\<close>, or a value of the response
  passed as it is.
\<close>

datatype shown =
    Lit string
  | StrOf json
  | Ahead json
  | Val json

datatype http_method = GET | POST

text \<open>
  A request as \<open>requests.get\<close> or \<open>requests.post\<close> is given it. \<open>req_auth = Some t\<close>
  stands for \<open>headers={'Authorization': f'Bearer {t}'}\<close>, \<open>None\<close> for a call
  without \<open>headers\<close>.
\<close>

record request =
  req_method :: http_method
  req_url :: string
  req_auth :: "json option"
  req_json :: "json option"

text \<open>
  The exception classes the wrapper tells apart, each standing for itself and its
  subclasses not listed: \<open>ConnectTimeout\<close> is a \<open>ConnectionError\<close>.
\<close>

datatype transport_exn = ConnectTimeout | ConnectionError | ReadTimeout | HTTPError | OtherException

fun is_ConnectionError :: "transport_exn \<Rightarrow> bool" where
  "is_ConnectionError ConnectTimeout = True"
| "is_ConnectionError ConnectionError = True"
| "is_ConnectionError _ = False"

text \<open>What \<open>requests.get(...).json()\<close> does: it raises, or returns the decoded body.\<close>

datatype reply = Raises transport_exn | Body json

type_synonym net = "request \<Rightarrow> reply"

text \<open>
  The module globals \<open>api.TOKEN\<close> and \<open>last_state\<close>, the labels of the window, the
  toasts shown so far and the requests issued so far.
\<close>

record state =
  TOKEN :: json
  last_state :: int
  user_role_label :: shown
  user_state_label :: shown
  queue_position_label :: shown
  request_id_label :: shown
  time_label :: shown
  status_label :: shown
  toasts :: "shown list"
  sent :: "request list"

text \<open>
  Process start: \<open>TOKEN = ''\<close> (api.py) and \<open>last_state = 0\<close> (main.py); nothing shown
  or sent yet. The initial texts of the labels are set by the window, which is given.
\<close>

definition startup :: "shown \<Rightarrow> shown \<Rightarrow> shown \<Rightarrow> shown \<Rightarrow> shown \<Rightarrow> shown \<Rightarrow> state" where
  "startup role ustate queue rid tm status =
     \<lparr> TOKEN = JStr [], last_state = 0,
       user_role_label = role, user_state_label = ustate,
       queue_position_label = queue, request_id_label = rid,
       time_label = tm, status_label = status,
       toasts = [], sent = [] \<rparr>"

definition showMessage :: "shown \<Rightarrow> state \<Rightarrow> state" where
  "showMessage m s = s\<lparr>toasts := toasts s @ [m]\<rparr>"

section \<open>api.py\<close>

definition BASE_URL :: string where
  "BASE_URL = ''http://127.0.0.1:8000''"

definition msg_connect_timeout :: string where
  "msg_connect_timeout =
     [CHR 0xE8, CHR 0xBF, CHR 0x9E, CHR 0xE6, CHR 0x8E, CHR 0xA5,
      CHR 0xE8, CHR 0xB6, CHR 0x85, CHR 0xE6, CHR 0x97, CHR 0xB6]"

definition msg_connection_error :: string where
  "msg_connection_error =
     [CHR 0xE8, CHR 0xBF, CHR 0x9E, CHR 0xE6, CHR 0x8E, CHR 0xA5,
      CHR 0xE9, CHR 0x94, CHR 0x99, CHR 0xE8, CHR 0xAF, CHR 0xAF]"

definition msg_read_timeout :: string where
  "msg_read_timeout =
     [CHR 0xE6, CHR 0x95, CHR 0xB0, CHR 0xE6, CHR 0x8D, CHR 0xAE,
      CHR 0xE8, CHR 0xAF, CHR 0xBB, CHR 0xE5, CHR 0x8F, CHR 0x96,
      CHR 0xE8, CHR 0xB6, CHR 0x85, CHR 0xE6, CHR 0x97, CHR 0xB6]"

definition msg_http_error :: string where
  "msg_http_error =
     [CHR ''H'', CHR ''t'', CHR ''t'', CHR ''p'',
      CHR 0xE9, CHR 0x94, CHR 0x99, CHR 0xE8, CHR 0xAF, CHR 0xAF]"

definition msg_network_error :: string where
  "msg_network_error =
     [CHR 0xE7, CHR 0xBD, CHR 0x91, CHR 0xE7, CHR 0xBB, CHR 0x9C,
      CHR 0xE9, CHR 0x94, CHR 0x99, CHR 0xE8, CHR 0xAF, CHR 0xAF]"

text \<open>The \<open>except\<close> clauses of the wrapper, in their order.\<close>

definition transport_message :: "transport_exn \<Rightarrow> string" where
  "transport_message e =
     (if e = ConnectTimeout then msg_connect_timeout
      else if is_ConnectionError e then msg_connection_error
      else if e = ReadTimeout then msg_read_timeout
      else if e = HTTPError then msg_http_error
      else msg_network_error)"

text \<open>
  The statements after the \<open>try\<close> block, the same in \<open>api_post\<close> and \<open>api_get\<close>:
  \<open>if resp['code'] == -1: raise ApiError(resp['message'])\<close>, then
  \<open>return resp.get('data')\<close>.
\<close>

definition envelope :: "json \<Rightarrow> pyexn + json" where
  "envelope resp =
     (case subscript resp ''code'' of
        Inl e \<Rightarrow> Inl e
      | Inr c \<Rightarrow>
          if py_eq_int c (- 1) then
            (case subscript resp ''message'' of
               Inl e \<Rightarrow> Inl e
             | Inr m \<Rightarrow> Inl (ApiError m))
          else py_get resp ''data'')"

text \<open>
  \<open>len(TOKEN)\<close> is evaluated inside the \<open>try\<close> block, so its \<open>TypeError\<close> is caught
  by the last clause and no request is issued.
\<close>

definition api_post :: "net \<Rightarrow> string \<Rightarrow> json \<Rightarrow> state \<Rightarrow> (pyexn + json) \<times> state" where
  "api_post nw path body s =
     (let url = BASE_URL @ path in
      case py_len (TOKEN s) of
        Inl _ \<Rightarrow> (Inl (ApiError (JStr msg_network_error)), s)
      | Inr n \<Rightarrow>
          let req = (if n > 0
                     then \<lparr> req_method = POST, req_url = url,
                            req_auth = Some (TOKEN s), req_json = Some body \<rparr>
                     else \<lparr> req_method = POST, req_url = url,
                            req_auth = None, req_json = Some body \<rparr>) in
          let s' = s\<lparr>sent := sent s @ [req]\<rparr>
          in (case nw req of
                Raises e \<Rightarrow> (Inl (ApiError (JStr (transport_message e))), s')
              | Body resp \<Rightarrow> (envelope resp, s')))"

definition api_get :: "net \<Rightarrow> string \<Rightarrow> state \<Rightarrow> (pyexn + json) \<times> state" where
  "api_get nw path s =
     (let url = BASE_URL @ path in
      case py_len (TOKEN s) of
        Inl _ \<Rightarrow> (Inl (ApiError (JStr msg_network_error)), s)
      | Inr n \<Rightarrow>
          let req = (if n > 0
                     then \<lparr> req_method = GET, req_url = url,
                            req_auth = Some (TOKEN s), req_json = None \<rparr>
                     else \<lparr> req_method = GET, req_url = url,
                            req_auth = None, req_json = None \<rparr>) in
          let s' = s\<lparr>sent := sent s @ [req]\<rparr>
          in (case nw req of
                Raises e \<Rightarrow> (Inl (ApiError (JStr (transport_message e))), s')
              | Body resp \<Rightarrow> (envelope resp, s')))"

definition login :: "net \<Rightarrow> string \<Rightarrow> string \<Rightarrow> state \<Rightarrow> (pyexn + json \<times> json) \<times> state" where
  "login nw username password s =
     (case api_post nw ''/login''
             (JObj [(''username'', JStr username), (''password'', JStr password)]) s of
        (Inl e, s') \<Rightarrow> (Inl e, s')
      | (Inr data, s') \<Rightarrow>
          (case subscript data ''token'' of
             Inl e \<Rightarrow> (Inl e, s')
           | Inr token \<Rightarrow>
               (case subscript data ''is_admin'' of
                  Inl e \<Rightarrow> (Inl e, s')
                | Inr is_admin \<Rightarrow> (Inr (token, is_admin), s'))))"

definition time :: "net \<Rightarrow> state \<Rightarrow> (pyexn + json \<times> json) \<times> state" where
  "time nw s =
     (case api_get nw ''/time'' s of
        (Inl e, s') \<Rightarrow> (Inl e, s')
      | (Inr data, s') \<Rightarrow>
          (case subscript data ''datetime'' of
             Inl e \<Rightarrow> (Inl e, s')
           | Inr dt \<Rightarrow>
               (case subscript data ''timestamp'' of
                  Inl e \<Rightarrow> (Inl e, s')
                | Inr ts \<Rightarrow> (Inr (dt, ts), s'))))"

definition submit_charging_request ::
  "net \<Rightarrow> string \<Rightarrow> string \<Rightarrow> string \<Rightarrow> state \<Rightarrow> (pyexn + unit) \<times> state" where
  "submit_charging_request nw charge_mode require_amount battery_size s =
     (case api_post nw ''/user/submit_charging_request''
             (JObj [(''charge_mode'', JStr charge_mode),
                    (''require_amount'', JStr require_amount),
                    (''battery_size'', JStr battery_size)]) s of
        (Inl e, s') \<Rightarrow> (Inl e, s')
      | (Inr _, s') \<Rightarrow> (Inr (), s'))"

definition edit_charging_request ::
  "net \<Rightarrow> string \<Rightarrow> string \<Rightarrow> state \<Rightarrow> (pyexn + unit) \<times> state" where
  "edit_charging_request nw charge_mode require_amount s =
     (case api_post nw ''/user/edit_charging_request''
             (JObj [(''charge_mode'', JStr charge_mode),
                    (''require_amount'', JStr require_amount)]) s of
        (Inl e, s') \<Rightarrow> (Inl e, s')
      | (Inr _, s') \<Rightarrow> (Inr (), s'))"

definition preview_queue :: "net \<Rightarrow> state \<Rightarrow> (pyexn + json) \<times> state" where
  "preview_queue nw s = api_get nw ''/user/preview_queue'' s"

section \<open>user/main.py\<close>

text \<open>The string literals of the module, as their UTF-8 encodings.\<close>

definition msg_use_user_account :: string where
  "msg_use_user_account =
     [CHR 0xE8, CHR 0xAF, CHR 0xB7, CHR 0xE4, CHR 0xBD, CHR 0xBF,
      CHR 0xE7, CHR 0x94, CHR 0xA8, CHR 0xE7, CHR 0x94, CHR 0xA8,
      CHR 0xE6, CHR 0x88, CHR 0xB7, CHR 0xE8, CHR 0xB4, CHR 0xA6,
      CHR 0xE5, CHR 0x8F, CHR 0xB7]"

definition msg_logged_in :: string where
  "msg_logged_in =
     [CHR 0xE5, CHR 0xB7, CHR 0xB2, CHR 0xE7, CHR 0x99, CHR 0xBB,
      CHR 0xE9, CHR 0x99, CHR 0x86]"

definition msg_login_ok :: string where
  "msg_login_ok =
     [CHR 0xE7, CHR 0x99, CHR 0xBB, CHR 0xE9, CHR 0x99, CHR 0x86,
      CHR 0xE6, CHR 0x88, CHR 0x90, CHR 0xE5, CHR 0x8A, CHR 0x9F]"

definition msg_no_request :: string where
  "msg_no_request =
     [CHR 0xE6, CHR 0xB2, CHR 0xA1, CHR 0xE6, CHR 0x9C, CHR 0x89,
      CHR 0xE5, CHR 0x85, CHR 0x85, CHR 0xE7, CHR 0x94, CHR 0xB5,
      CHR 0xE8, CHR 0xAF, CHR 0xB7, CHR 0xE6, CHR 0xB1, CHR 0x82]"

definition msg_finished :: string where
  "msg_finished =
     [CHR 0xE5, CHR 0x85, CHR 0x85, CHR 0xE7, CHR 0x94, CHR 0xB5,
      CHR 0xE7, CHR 0xBB, CHR 0x93, CHR 0xE6, CHR 0x9D, CHR 0x9F,
      CHR '' '', CHR 0xE8, CHR 0xAF, CHR 0xB7, CHR 0xE6, CHR 0x9F,
      CHR 0xA5, CHR 0xE8, CHR 0xAF, CHR 0xA2, CHR 0xE8, CHR 0xAF,
      CHR 0xA6, CHR 0xE5, CHR 0x8D, CHR 0x95]"

definition msg_waiting_area :: string where
  "msg_waiting_area =
     [CHR 0xE5, CHR 0x9C, CHR 0xA8, CHR 0xE7, CHR 0xAD, CHR 0x89,
      CHR 0xE5, CHR 0x80, CHR 0x99, CHR 0xE5, CHR 0x8C, CHR 0xBA,
      CHR 0xE7, CHR 0xAD, CHR 0x89, CHR 0xE5, CHR 0xBE, CHR 0x85]"

definition msg_charging_area :: string where
  "msg_charging_area =
     [CHR 0xE5, CHR 0x9C, CHR 0xA8, CHR 0xE5, CHR 0x85, CHR 0x85,
      CHR 0xE7, CHR 0x94, CHR 0xB5, CHR 0xE5, CHR 0x8C, CHR 0xBA,
      CHR 0xE7, CHR 0xAD, CHR 0x89, CHR 0xE5, CHR 0xBE, CHR 0x85]"

definition msg_charging :: string where
  "msg_charging =
     [CHR 0xE6, CHR 0xAD, CHR 0xA3, CHR 0xE5, CHR 0x9C, CHR 0xA8,
      CHR 0xE5, CHR 0x85, CHR 0x85, CHR 0xE7, CHR 0x94, CHR 0xB5]"

definition msg_requeue :: string where
  "msg_requeue =
     [CHR 0xE5, CHR 0x85, CHR 0x85, CHR 0xE7, CHR 0x94, CHR 0xB5,
      CHR 0xE6, CHR 0xA8, CHR 0xA1, CHR 0xE5, CHR 0xBC, CHR 0x8F,
      CHR 0xE6, CHR 0x9B, CHR 0xB4, CHR 0xE6, CHR 0x94, CHR 0xB9,
      CHR '' '', CHR 0xE9, CHR 0x87, CHR 0x8D, CHR 0xE6, CHR 0x96,
      CHR 0xB0, CHR 0xE6, CHR 0x8E, CHR 0x92, CHR 0xE9, CHR 0x98,
      CHR 0x9F]"

definition msg_fault :: string where
  "msg_fault =
     [CHR 0xE5, CHR 0x85, CHR 0x85, CHR 0xE7, CHR 0x94, CHR 0xB5,
      CHR 0xE6, CHR 0xA1, CHR 0xA9, CHR 0xE6, CHR 0x95, CHR 0x85,
      CHR 0xE9, CHR 0x9A, CHR 0x9C]"

definition label_fast :: string where
  "label_fast =
     [CHR 0xE5, CHR 0xBF, CHR 0xAB, CHR 0xE5, CHR 0x85, CHR 0x85]"

definition msg_submitted :: string where
  "msg_submitted =
     [CHR 0xE8, CHR 0xAF, CHR 0xB7, CHR 0xE6, CHR 0xB1, CHR 0x82,
      CHR 0xE6, CHR 0x8F, CHR 0x90, CHR 0xE4, CHR 0xBA, CHR 0xA4,
      CHR 0xE6, CHR 0x88, CHR 0x90, CHR 0xE5, CHR 0x8A, CHR 0x9F]"

definition msg_edited :: string where
  "msg_edited =
     [CHR 0xE4, CHR 0xBF, CHR 0xAE, CHR 0xE6, CHR 0x94, CHR 0xB9,
      CHR 0xE5, CHR 0x85, CHR 0x85, CHR 0xE7, CHR 0x94, CHR 0xB5,
      CHR 0xE8, CHR 0xAF, CHR 0xB7, CHR 0xE6, CHR 0xB1, CHR 0x82,
      CHR 0xE6, CHR 0x88, CHR 0x90, CHR 0xE5, CHR 0x8A, CHR 0x9F]"

text \<open>
  How a slot ends: it returns, or an exception that no handler of the slot catches
  leaves it.
\<close>

datatype slot_exit = Returned | Escaped pyexn

definition on_login_clicked :: "net \<Rightarrow> string \<Rightarrow> string \<Rightarrow> state \<Rightarrow> slot_exit \<times> state" where
  "on_login_clicked nw username password s =
     (case login nw username password s of
        (Inl e, s') \<Rightarrow>
          (case e of
             ApiError m \<Rightarrow> (Returned, showMessage (StrOf m) s')
           | _ \<Rightarrow> (Escaped e, s'))
      | (Inr (token, is_admin), s') \<Rightarrow>
          if truthy is_admin then (Returned, showMessage (Lit msg_use_user_account) s')
          else
            (Returned,
             showMessage (Lit msg_login_ok)
               (s'\<lparr>TOKEN := token,
                   user_role_label := Lit ''USER'',
                   user_state_label := Lit msg_logged_in\<rparr>)))"

text \<open>
  The labels belong to the window, which the module receives from \<open>mainwindow\<close>;
  \<open>chk v\<close> is the exception, if any, with which a label's \<open>setText\<close> refuses the
  value \<open>v\<close> of a response.
\<close>

type_synonym label_check = "json \<Rightarrow> pyexn option"

text \<open>
  How a poll tick ends: the return for an empty token, the return of an \<open>ApiError\<close>
  handler, an exception leaving the slot, or the end of the status chain, reached with
  the value of \<open>data['cur_state']\<close>.
\<close>

datatype tick = Skipped | Failed json | Left pyexn | Polled json

text \<open>The status chain of \<open>preview_callback\<close>, on the value of \<open>data['cur_state']\<close>.\<close>

definition update_status :: "json \<Rightarrow> state \<Rightarrow> state" where
  "update_status c s =
     (if c = JStr ''NOTCHARGING'' then
        (let s1 = s\<lparr>status_label := Lit msg_no_request\<rparr> in
         if last_state s1 = 1
         then (showMessage (Lit msg_finished) s1)\<lparr>last_state := 0\<rparr>
         else s1)
      else if c = JStr ''WAITINGSTAGE1'' then s\<lparr>status_label := Lit msg_waiting_area\<rparr>
      else if c = JStr ''WAITINGSTAGE2'' then s\<lparr>status_label := Lit msg_charging_area\<rparr>
      else if c = JStr ''CHARGING'' then
        s\<lparr>status_label := Lit msg_charging, last_state := 1\<rparr>
      else if c = JStr ''CHANGEMODEREQUEUE'' then s\<lparr>status_label := Lit msg_requeue\<rparr>
      else if c = JStr ''FAULTREQUEUE'' then s\<lparr>status_label := Lit msg_fault\<rparr>
      else s)"

text \<open>
  The part of \<open>preview_callback\<close> after both calls have returned: queue length,
  request id, time, then the status chain.
\<close>

definition render :: "label_check \<Rightarrow> json \<Rightarrow> json \<times> json \<Rightarrow> state \<Rightarrow> tick \<times> state" where
  "render chk data now_time s =
     (case subscript data ''queue_len'' of
        Inl e \<Rightarrow> (Left e, s)
      | Inr q \<Rightarrow>
          (let s1 = (if \<not> py_eq_int q (- 1)
                     then s\<lparr>queue_position_label := Ahead q\<rparr>
                     else s\<lparr>queue_position_label := Lit []\<rparr>)
           in (case subscript data ''charge_id'' of
                 Inl e \<Rightarrow> (Left e, s1)
               | Inr cid \<Rightarrow>
                   (case (if truthy cid then chk cid else None) of
                      Some e \<Rightarrow> (Left e, s1)
                    | None \<Rightarrow>
                        (let s2 = (if truthy cid then s1\<lparr>request_id_label := Val cid\<rparr>
                                   else s1)
                         in (case chk (fst now_time) of
                               Some e \<Rightarrow> (Left e, s2)
                             | None \<Rightarrow>
                                 (let s3 = s2\<lparr>time_label := Val (fst now_time)\<rparr>
                                  in (case subscript data ''cur_state'' of
                                        Inl e \<Rightarrow> (Left e, s3)
                                      | Inr c \<Rightarrow> (Polled c, update_status c s3)))))))))"

definition preview_callback :: "label_check \<Rightarrow> net \<Rightarrow> state \<Rightarrow> tick \<times> state" where
  "preview_callback chk nw s =
     (case py_len (TOKEN s) of
        Inl e \<Rightarrow> (Left e, s)
      | Inr n \<Rightarrow>
          if n = 0 then (Skipped, s)
          else
            (case preview_queue nw s of
               (Inl e, s1) \<Rightarrow>
                 (case e of
                    ApiError m \<Rightarrow> (Failed m, showMessage (StrOf m) s1)
                  | _ \<Rightarrow> (Left e, s1))
             | (Inr data, s1) \<Rightarrow>
                 (case time nw s1 of
                    (Inl e, s2) \<Rightarrow>
                      (case e of
                         ApiError m \<Rightarrow> (Failed m, showMessage (StrOf m) s2)
                       | _ \<Rightarrow> (Left e, s2))
                  | (Inr now_time, s2) \<Rightarrow> render chk data now_time s2)))"

definition on_submit_clicked ::
  "net \<Rightarrow> string \<Rightarrow> string \<Rightarrow> string \<Rightarrow> state \<Rightarrow> slot_exit \<times> state" where
  "on_submit_clicked nw mode_text require_amount battery_capacity s =
     (let mode = (if mode_text = label_fast then ''F'' else ''T'') in
      case submit_charging_request nw mode require_amount battery_capacity s of
        (Inl e, s') \<Rightarrow>
          (case e of
             ApiError m \<Rightarrow> (Returned, showMessage (StrOf m) s')
           | _ \<Rightarrow> (Escaped e, s'))
      | (Inr _, s') \<Rightarrow> (Returned, showMessage (Lit msg_submitted) s'))"

definition on_edit_request_clicked ::
  "net \<Rightarrow> string \<Rightarrow> string \<Rightarrow> state \<Rightarrow> slot_exit \<times> state" where
  "on_edit_request_clicked nw mode_text require_amount s =
     (let mode = (if mode_text = label_fast then ''F'' else ''T'') in
      case edit_charging_request nw mode require_amount s of
        (Inl e, s') \<Rightarrow>
          (case e of
             ApiError m \<Rightarrow> (Returned, showMessage (StrOf m) s')
           | _ \<Rightarrow> (Escaped e, s'))
      | (Inr _, s') \<Rightarrow> (Returned, showMessage (Lit msg_edited) s'))"

text \<open>
  The timer calls \<open>preview_callback\<close> once per period. The coroutines of \<open>api.py\<close>
  call \<open>requests\<close> directly and never suspend, so a tick runs to its end before the next
  one starts. A run of ticks is given by the network's behaviour at each of them: the
  state after the run, and how each tick ended.
\<close>

fun poll :: "label_check \<Rightarrow> net list \<Rightarrow> state \<Rightarrow> state" where
  "poll chk [] s = s"
| "poll chk (nw # nws) s = poll chk nws (snd (preview_callback chk nw s))"

fun ticks :: "label_check \<Rightarrow> net list \<Rightarrow> state \<Rightarrow> tick list" where
  "ticks chk [] s = []"
| "ticks chk (nw # nws) s =
     fst (preview_callback chk nw s) # ticks chk nws (snd (preview_callback chk nw s))"

text \<open>The toasts shown between a state and a later one.\<close>

definition shown_since :: "state \<Rightarrow> state \<Rightarrow> shown list" where
  "shown_since s s' = drop (length (toasts s)) (toasts s')"

text \<open>
  The number of completion notifications a tick shows: the toasts of the literal in the
  \<open>NOTCHARGING\<close> branch. The toast of a caught error is \<open>StrOf\<close> its argument, whatever
  text the server sent.
\<close>

definition completions :: "label_check \<Rightarrow> net \<Rightarrow> state \<Rightarrow> nat" where
  "completions chk nw s =
     count_list (shown_since s (snd (preview_callback chk nw s))) (Lit msg_finished)"

section \<open>Histories of ticks\<close>

text \<open>
  The property of a history of ticks that the completion notification depends on,
  stated on the history alone: some tick observed \<open>CHARGING\<close> and no later tick
  observed \<open>NOTCHARGING\<close>.
\<close>

fun charging_pending :: "tick list \<Rightarrow> bool" where
  "charging_pending [] = False"
| "charging_pending (t # ts) =
     ((t = Polled (JStr ''CHARGING'') \<and> Polled (JStr ''NOTCHARGING'') \<notin> set ts)
      \<or> charging_pending ts)"

section \<open>Concrete inputs\<close>

text \<open>Labels that take every value; a window with empty labels; a session with a token.\<close>

definition no_check :: label_check where
  "no_check = (\<lambda>_. None)"

definition blank_start :: state where
  "blank_start = startup (Lit []) (Lit []) (Lit []) (Lit []) (Lit []) (Lit [])"

definition signed_in :: state where
  "signed_in = blank_start\<lparr>TOKEN := JStr ''token''\<rparr>"

text \<open>
  A server that answers every call with a success envelope: the given status for the
  queue preview, a fixed time for the clock.
\<close>

definition ok_envelope :: "json \<Rightarrow> json" where
  "ok_envelope d = JObj [(''code'', JInt 0), (''message'', JStr ''ok''), (''data'', d)]"

definition status_server :: "string \<Rightarrow> net" where
  "status_server c req =
     (if req_url req = BASE_URL @ ''/user/preview_queue''
      then Body (ok_envelope (JObj [(''queue_len'', JInt 2), (''charge_id'', JStr ''F7''),
                                    (''cur_state'', JStr c)]))
      else Body (ok_envelope (JObj [(''datetime'', JStr ''2023-06-01 12:00:00''),
                                    (''timestamp'', JInt 1685620800)])))"

text \<open>A server whose login succeeds with the given token and admin flag.\<close>

definition login_server :: "json \<Rightarrow> json \<Rightarrow> net" where
  "login_server token is_admin =
     (\<lambda>_. Body (ok_envelope (JObj [(''token'', token), (''is_admin'', is_admin)])))"

text \<open>A network on which every connection times out.\<close>

definition timeout_server :: net where
  "timeout_server = (\<lambda>_. Raises ConnectTimeout)"

text \<open>The message of the register scenario and a label other than the fast one.\<close>

definition msg_username_exists :: string where
  "msg_username_exists =
     [CHR 0xE7, CHR 0x94, CHR 0xA8, CHR 0xE6, CHR 0x88, CHR 0xB7,
      CHR 0xE5, CHR 0x90, CHR 0x8D, CHR 0xE5, CHR 0xB7, CHR 0xB2,
      CHR 0xE5, CHR 0xAD, CHR 0x98, CHR 0xE5, CHR 0x9C, CHR 0xA8]"

definition label_slow :: string where
  "label_slow = [CHR 0xE6, CHR 0x85, CHR 0xA2, CHR 0xE5, CHR 0x85, CHR 0x85]"


section \<open>The transport wrapper\<close>

lemma api_get_sized:
  "py_len (TOKEN s) = Inr n \<Longrightarrow>
   api_get nw path s =
     (let req = \<lparr> req_method = GET, req_url = BASE_URL @ path,
                    req_auth = (if 0 < n then Some (TOKEN s) else None), req_json = None \<rparr>
      in (case nw req of
            Raises e \<Rightarrow> Inl (ApiError (JStr (transport_message e)))
          | Body resp \<Rightarrow> envelope resp,
          s\<lparr>sent := sent s @ [req]\<rparr>))"
  by (simp add: api_get_def Let_def split: reply.splits)

lemma api_post_sized:
  "py_len (TOKEN s) = Inr n \<Longrightarrow>
   api_post nw path body s =
     (let req = \<lparr> req_method = POST, req_url = BASE_URL @ path,
                    req_auth = (if 0 < n then Some (TOKEN s) else None), req_json = Some body \<rparr>
      in (case nw req of
            Raises e \<Rightarrow> Inl (ApiError (JStr (transport_message e)))
          | Body resp \<Rightarrow> envelope resp,
          s\<lparr>sent := sent s @ [req]\<rparr>))"
  by (simp add: api_post_def Let_def split: reply.splits)

lemma api_get_unsized:
  "py_len (TOKEN s) = Inl e \<Longrightarrow>
   api_get nw path s = (Inl (ApiError (JStr msg_network_error)), s)"
  by (simp add: api_get_def)

lemma api_post_unsized:
  "py_len (TOKEN s) = Inl e \<Longrightarrow>
   api_post nw path body s = (Inl (ApiError (JStr msg_network_error)), s)"
  by (simp add: api_post_def)

lemma api_get_frame: "\<exists>rs. snd (api_get nw p s) = s\<lparr>sent := sent s @ rs\<rparr>"
proof (cases "py_len (TOKEN s)")
  case (Inl e)
  then have "snd (api_get nw p s) = s\<lparr>sent := sent s @ []\<rparr>"
    by (simp add: api_get_unsized)
  then show ?thesis by blast
next
  case (Inr n)
  then show ?thesis
    by (simp add: api_get_sized Let_def) blast
qed

lemma api_post_frame: "\<exists>rs. snd (api_post nw p b s) = s\<lparr>sent := sent s @ rs\<rparr>"
proof (cases "py_len (TOKEN s)")
  case (Inl e)
  then have "snd (api_post nw p b s) = s\<lparr>sent := sent s @ []\<rparr>"
    by (simp add: api_post_unsized)
  then show ?thesis by blast
next
  case (Inr n)
  then show ?thesis
    by (simp add: api_post_sized Let_def) blast
qed

lemma api_get_result_token:
  "TOKEN s = TOKEN t \<Longrightarrow> fst (api_get nw p s) = fst (api_get nw p t)"
  by (simp add: api_get_def Let_def split: sum.splits reply.splits)

lemma api_post_result_token:
  "TOKEN s = TOKEN t \<Longrightarrow> fst (api_post nw p b s) = fst (api_post nw p b t)"
  by (simp add: api_post_def Let_def split: sum.splits reply.splits)

lemma time_snd: "snd (time nw s) = snd (api_get nw ''/time'' s)"
  by (simp add: time_def split: prod.splits sum.splits)

lemma time_result_token:
  "TOKEN s = TOKEN t \<Longrightarrow> fst (time nw s) = fst (time nw t)"
  using api_get_result_token [of s t nw "''/time''"]
  by (auto simp add: time_def split: prod.splits sum.splits)

lemma login_snd:
  "snd (login nw u p s) =
   snd (api_post nw ''/login'' (JObj [(''username'', JStr u), (''password'', JStr p)]) s)"
  by (simp add: login_def split: prod.splits sum.splits)

lemma login_frame: "\<exists>rs. snd (login nw u p s) = s\<lparr>sent := sent s @ rs\<rparr>"
  unfolding login_snd by (rule api_post_frame)

lemma submit_charging_request_snd:
  "snd (submit_charging_request nw m a b s) =
   snd (api_post nw ''/user/submit_charging_request''
          (JObj [(''charge_mode'', JStr m), (''require_amount'', JStr a),
                 (''battery_size'', JStr b)]) s)"
  by (simp add: submit_charging_request_def split: prod.splits sum.splits)

lemma edit_charging_request_snd:
  "snd (edit_charging_request nw m a s) =
   snd (api_post nw ''/user/edit_charging_request''
          (JObj [(''charge_mode'', JStr m), (''require_amount'', JStr a)]) s)"
  by (simp add: edit_charging_request_def split: prod.splits sum.splits)

lemma on_submit_clicked_sent:
  "sent (snd (on_submit_clicked nw mt a b s)) =
   sent (snd (submit_charging_request nw (if mt = label_fast then ''F'' else ''T'') a b s))"
  unfolding on_submit_clicked_def Let_def showMessage_def
  by (cases "submit_charging_request nw (if mt = label_fast then ''F'' else ''T'') a b s")
     (simp split: sum.splits pyexn.splits)

lemma on_edit_request_clicked_sent:
  "sent (snd (on_edit_request_clicked nw mt a s)) =
   sent (snd (edit_charging_request nw (if mt = label_fast then ''F'' else ''T'') a s))"
  unfolding on_edit_request_clicked_def Let_def showMessage_def
  by (cases "edit_charging_request nw (if mt = label_fast then ''F'' else ''T'') a s")
     (simp split: sum.splits pyexn.splits)

section \<open>One poll tick\<close>

lemma update_status_last_state:
  "last_state (update_status c s) =
     (if c = JStr ''CHARGING'' then 1
      else if c = JStr ''NOTCHARGING'' \<and> last_state s = 1 then 0
      else last_state s)"
  by (simp add: update_status_def showMessage_def Let_def)

lemma update_status_toasts:
  "toasts (update_status c s) =
     toasts s @ (if c = JStr ''NOTCHARGING'' \<and> last_state s = 1 then [Lit msg_finished] else [])"
  by (simp add: update_status_def showMessage_def Let_def)

lemma update_status_TOKEN: "TOKEN (update_status c s) = TOKEN s"
  by (simp add: update_status_def showMessage_def Let_def)

lemma update_status_sent: "sent (update_status c s) = sent s"
  by (simp add: update_status_def showMessage_def Let_def)

lemma render_cases:
  "(\<exists>e s'. render chk data nt s = (Left e, s') \<and> last_state s' = last_state s
            \<and> toasts s' = toasts s \<and> TOKEN s' = TOKEN s \<and> sent s' = sent s)
 \<or> (\<exists>c s'. render chk data nt s = (Polled c, update_status c s') \<and> last_state s' = last_state s
            \<and> toasts s' = toasts s \<and> TOKEN s' = TOKEN s \<and> sent s' = sent s)"
  unfolding render_def Let_def
  by (auto split: sum.splits option.splits)

lemma render_result: "fst (render chk data nt s) = fst (render chk data nt t)"
  unfolding render_def Let_def
  by (auto split: sum.splits option.splits)

lemma render_last_state:
  "last_state (snd (render chk data nt s)) =
     (case fst (render chk data nt s) of
        Polled c \<Rightarrow>
          (if c = JStr ''CHARGING'' then 1
           else if c = JStr ''NOTCHARGING'' \<and> last_state s = 1 then 0
           else last_state s)
      | _ \<Rightarrow> last_state s)"
  using render_cases [of chk data nt s]
  by (auto simp add: update_status_last_state)

lemma render_toasts:
  "toasts (snd (render chk data nt s)) =
     toasts s @
     (case fst (render chk data nt s) of
        Polled c \<Rightarrow>
          (if c = JStr ''NOTCHARGING'' \<and> last_state s = 1 then [Lit msg_finished] else [])
      | _ \<Rightarrow> [])"
  using render_cases [of chk data nt s]
  by (auto simp add: update_status_toasts)

lemma render_TOKEN: "TOKEN (snd (render chk data nt s)) = TOKEN s"
  using render_cases [of chk data nt s]
  by (auto simp add: update_status_TOKEN)

lemma render_sent: "sent (snd (render chk data nt s)) = sent s"
  using render_cases [of chk data nt s]
  by (auto simp add: update_status_sent)

lemma render_no_failed: "fst (render chk data nt s) \<noteq> Failed m"
  using render_cases [of chk data nt s] by auto

lemma render_no_skipped: "fst (render chk data nt s) \<noteq> Skipped"
  using render_cases [of chk data nt s] by auto


lemma preview_queue_frame: "\<exists>rs. snd (preview_queue nw s) = s\<lparr>sent := sent s @ rs\<rparr>"
  unfolding preview_queue_def by (rule api_get_frame)

lemma time_frame: "\<exists>rs. snd (time nw s) = s\<lparr>sent := sent s @ rs\<rparr>"
  unfolding time_snd by (rule api_get_frame)

lemma preview_callback_cases:
  "preview_callback chk nw s = (Skipped, s)
 \<or> (\<exists>e s'. preview_callback chk nw s = (Left e, s') \<and> last_state s' = last_state s
            \<and> toasts s' = toasts s \<and> TOKEN s' = TOKEN s)
 \<or> (\<exists>m s'. preview_callback chk nw s = (Failed m, showMessage (StrOf m) s')
            \<and> last_state s' = last_state s \<and> toasts s' = toasts s \<and> TOKEN s' = TOKEN s)
 \<or> (\<exists>c s'. preview_callback chk nw s = (Polled c, update_status c s')
            \<and> last_state s' = last_state s \<and> toasts s' = toasts s \<and> TOKEN s' = TOKEN s)"
proof -
  obtain r1 s1 where pq: "preview_queue nw s = (r1, s1)"
    by (cases "preview_queue nw s")
  obtain r2 s2 where tm: "time nw s1 = (r2, s2)"
    by (cases "time nw s1")
  from preview_queue_frame [of nw s] pq
  have s1: "last_state s1 = last_state s \<and> toasts s1 = toasts s \<and> TOKEN s1 = TOKEN s"
    by auto
  from time_frame [of nw s1] tm s1
  have s2: "last_state s2 = last_state s \<and> toasts s2 = toasts s \<and> TOKEN s2 = TOKEN s"
    by auto
  show ?thesis
  proof (cases "py_len (TOKEN s)")
    case (Inl e)
    then show ?thesis by (simp add: preview_callback_def)
  next
    case (Inr n)
    show ?thesis
    proof (cases "n = 0")
      case True
      with Inr show ?thesis by (simp add: preview_callback_def)
    next
      case False
      show ?thesis
      proof (cases r1)
        case (Inl e)
        with Inr False pq s1 show ?thesis
          by (cases e) (auto simp add: preview_callback_def)
      next
        case data: (Inr data)
        show ?thesis
        proof (cases r2)
          case (Inl e)
          with Inr False pq tm data s2 show ?thesis
            by (cases e) (auto simp add: preview_callback_def)
        next
          case nt: (Inr now_time)
          have pc: "preview_callback chk nw s = render chk data now_time s2"
            using Inr False pq tm data nt by (simp add: preview_callback_def)
          from render_cases [of chk data now_time s2] s2 show ?thesis
            unfolding pc by auto
        qed
      qed
    qed
  qed
qed

lemma preview_callback_TOKEN: "TOKEN (snd (preview_callback chk nw s)) = TOKEN s"
  using preview_callback_cases [of chk nw s]
  by (auto simp add: update_status_TOKEN showMessage_def)

lemma preview_callback_last_state:
  "last_state (snd (preview_callback chk nw s)) =
     (case fst (preview_callback chk nw s) of
        Polled c \<Rightarrow>
          (if c = JStr ''CHARGING'' then 1
           else if c = JStr ''NOTCHARGING'' \<and> last_state s = 1 then 0
           else last_state s)
      | _ \<Rightarrow> last_state s)"
  using preview_callback_cases [of chk nw s]
  by (auto simp add: update_status_last_state showMessage_def)

lemma preview_callback_toasts:
  "toasts (snd (preview_callback chk nw s)) =
     toasts s @
     (case fst (preview_callback chk nw s) of
        Polled c \<Rightarrow>
          (if c = JStr ''NOTCHARGING'' \<and> last_state s = 1 then [Lit msg_finished] else [])
      | Failed m \<Rightarrow> [StrOf m]
      | _ \<Rightarrow> [])"
  using preview_callback_cases [of chk nw s]
  by (auto simp add: update_status_toasts showMessage_def)

lemma completions_eq:
  "completions chk nw s =
     (if fst (preview_callback chk nw s) = Polled (JStr ''NOTCHARGING'') \<and> last_state s = 1
      then 1 else 0)"
  by (auto simp add: completions_def shown_since_def preview_callback_toasts split: tick.splits)

lemma preview_callback_result_token:
  assumes "TOKEN s = TOKEN t"
  shows "fst (preview_callback chk nw s) = fst (preview_callback chk nw t)"
proof -
  have pq: "fst (preview_queue nw s) = fst (preview_queue nw t)"
    unfolding preview_queue_def using assms by (rule api_get_result_token)
  have tm: "fst (time nw (snd (preview_queue nw s))) = fst (time nw (snd (preview_queue nw t)))"
  proof (rule time_result_token)
    from preview_queue_frame [of nw s] preview_queue_frame [of nw t] assms
    show "TOKEN (snd (preview_queue nw s)) = TOKEN (snd (preview_queue nw t))" by auto
  qed
  show ?thesis
    using assms pq tm render_result
    by (auto simp add: preview_callback_def split: sum.splits prod.splits pyexn.splits)
qed

lemma status_server_tick:
  "TOKEN s = JStr (a # tok) \<Longrightarrow>
   fst (preview_callback no_check (status_server c) s) = Polled (JStr c)"
  by (simp add: preview_callback_def preview_queue_def time_def api_get_sized Let_def
        status_server_def BASE_URL_def ok_envelope_def envelope_def render_def no_check_def)

section \<open>Runs of ticks\<close>

lemma poll_snoc: "poll chk (nws @ [nw]) s = snd (preview_callback chk nw (poll chk nws s))"
  by (induction nws arbitrary: s) simp_all

lemma ticks_snoc:
  "ticks chk (nws @ [nw]) s = ticks chk nws s @ [fst (preview_callback chk nw (poll chk nws s))]"
  by (induction nws arbitrary: s) simp_all

lemma charging_pending_snoc:
  "charging_pending (ts @ [t]) =
     (t = Polled (JStr ''CHARGING'')
      \<or> (t \<noteq> Polled (JStr ''NOTCHARGING'') \<and> charging_pending ts))"
  by (induction ts) auto

lemma poll_last_state:
  "last_state s = 0 \<Longrightarrow>
   last_state (poll chk nws s) = (if charging_pending (ticks chk nws s) then 1 else 0)"
proof (induction nws rule: rev_induct)
  case Nil
  then show ?case by simp
next
  case (snoc nw nws)
  then show ?case
    by (auto simp add: poll_snoc ticks_snoc charging_pending_snoc preview_callback_last_state
             split: tick.splits)
qed


section \<open>The claims\<close>

text \<open>
  C1, as the program has it. From a state whose \<open>last_state\<close> is 0, a tick shows the
  completion notification exactly once if it observes \<open>NOTCHARGING\<close> and some earlier
  tick of the run observed \<open>CHARGING\<close> with no \<open>NOTCHARGING\<close> observed since, and not
  at all otherwise: ticks that fail, and ticks that observe another status, leave the
  pending completion in place. Two consecutive ticks that end the same way never show
  two notifications.
\<close>

theorem completion_when_pending:
  assumes "last_state s = 0"
  shows "completions chk nw (poll chk nws s) =
           (if fst (preview_callback chk nw (poll chk nws s)) = Polled (JStr ''NOTCHARGING'')
               \<and> charging_pending (ticks chk nws s)
            then 1 else 0)
       \<and> (fst (preview_callback chk nw' (snd (preview_callback chk nw (poll chk nws s))))
            = fst (preview_callback chk nw (poll chk nws s)) \<longrightarrow>
          completions chk nw (poll chk nws s)
            + completions chk nw' (snd (preview_callback chk nw (poll chk nws s))) \<le> 1)"
  using assms
  by (auto simp add: completions_eq poll_last_state preview_callback_last_state)

theorem completion_when_pending_witness:
  "last_state signed_in = 0
   \<and> completions no_check (status_server ''NOTCHARGING'')
        (poll no_check [status_server ''CHARGING'', status_server ''WAITINGSTAGE2''] signed_in) = 1
   \<and> completions no_check (status_server ''NOTCHARGING'')
        (poll no_check [status_server ''CHARGING'', status_server ''NOTCHARGING''] signed_in) = 0"
  using completion_when_pending
          [of signed_in no_check "status_server ''NOTCHARGING''"
              "[status_server ''CHARGING'', status_server ''WAITINGSTAGE2'']"]
        completion_when_pending
          [of signed_in no_check "status_server ''NOTCHARGING''"
              "[status_server ''CHARGING'', status_server ''NOTCHARGING'']"]
  by (simp add: status_server_tick preview_callback_TOKEN signed_in_def blank_start_def
        startup_def)

text \<open>
  C1 as stated fails: after \<open>CHARGING\<close> and then \<open>FAULTREQUEUE\<close>, a tick observing
  \<open>NOTCHARGING\<close> shows the notification, although the observation just before it was
  not \<open>CHARGING\<close>.
\<close>

theorem completion_after_fault:
  "ticks no_check
     [status_server ''CHARGING'', status_server ''FAULTREQUEUE'', status_server ''NOTCHARGING'']
     signed_in
     = [Polled (JStr ''CHARGING''), Polled (JStr ''FAULTREQUEUE''), Polled (JStr ''NOTCHARGING'')]
   \<and> completions no_check (status_server ''NOTCHARGING'')
        (poll no_check [status_server ''CHARGING'', status_server ''FAULTREQUEUE''] signed_in) = 1"
  by (simp add: status_server_tick preview_callback_TOKEN preview_callback_last_state
        completions_eq signed_in_def blank_start_def startup_def)

text \<open>
  C2, as the program has it. \<open>last_state\<close> is 0 at process start. A tick that reaches
  the status chain sets it to 1 on \<open>CHARGING\<close>, to 0 on \<open>NOTCHARGING\<close>, and leaves it as
  it is on every other status; it is always 0 or 1.
\<close>

theorem last_state_latch:
  assumes "last_state s = 0 \<or> last_state s = 1"
  shows "last_state (startup role ustate queue rid tm status) = 0
       \<and> (last_state (snd (preview_callback chk nw s)) = 0
          \<or> last_state (snd (preview_callback chk nw s)) = 1)
       \<and> (\<forall>c. fst (preview_callback chk nw s) = Polled c \<longrightarrow>
            last_state (snd (preview_callback chk nw s)) =
              (if c = JStr ''CHARGING'' then 1
               else if c = JStr ''NOTCHARGING'' then 0
               else last_state s))"
  using assms
  by (auto simp add: startup_def preview_callback_last_state split: tick.splits)

theorem last_state_latch_witness:
  "(last_state signed_in = 0 \<or> last_state signed_in = 1)
   \<and> fst (preview_callback no_check (status_server ''CHARGING'') signed_in)
       = Polled (JStr ''CHARGING'')
   \<and> last_state (snd (preview_callback no_check (status_server ''CHARGING'') signed_in)) = 1"
  using last_state_latch [of signed_in "Lit []" "Lit []" "Lit []" "Lit []" "Lit []" "Lit []"
                             no_check "status_server ''CHARGING''"]
  by (simp add: status_server_tick signed_in_def blank_start_def startup_def)

text \<open>
  C2 as stated fails: a tick observing \<open>WAITINGSTAGE1\<close> after one observing \<open>CHARGING\<close>
  leaves \<open>last_state\<close> at 1, the value that \<open>CHARGING\<close> stores.
\<close>

theorem last_state_not_current_variant:
  "ticks no_check [status_server ''CHARGING'', status_server ''WAITINGSTAGE1''] signed_in
     = [Polled (JStr ''CHARGING''), Polled (JStr ''WAITINGSTAGE1'')]
   \<and> last_state (poll no_check [status_server ''CHARGING''] signed_in) = 1
   \<and> last_state (poll no_check [status_server ''CHARGING'', status_server ''WAITINGSTAGE1'']
                    signed_in) = 1"
  by (simp add: status_server_tick preview_callback_TOKEN preview_callback_last_state
        signed_in_def blank_start_def startup_def)

text \<open>
  C3. When the token is not empty and \<open>preview_queue\<close> or \<open>time\<close> raises \<open>ApiError\<close>,
  the tick shows the error as a toast and leaves \<open>last_state\<close> as it was; the next tick
  ends, sets \<open>last_state\<close> and notifies as it would have done without the failed tick.
\<close>

theorem failed_tick_keeps_last_state:
  assumes "py_len (TOKEN s) = Inr n" and "0 < n"
    and "fst (preview_queue nw s) = Inl (ApiError m)
         \<or> (\<exists>data. fst (preview_queue nw s) = Inr data)
            \<and> fst (time nw (snd (preview_queue nw s))) = Inl (ApiError m)"
  shows "fst (preview_callback chk nw s) = Failed m
       \<and> toasts (snd (preview_callback chk nw s)) = toasts s @ [StrOf m]
       \<and> last_state (snd (preview_callback chk nw s)) = last_state s
       \<and> fst (preview_callback chk nw' (snd (preview_callback chk nw s)))
           = fst (preview_callback chk nw' s)
       \<and> last_state (snd (preview_callback chk nw' (snd (preview_callback chk nw s))))
           = last_state (snd (preview_callback chk nw' s))
       \<and> completions chk nw' (snd (preview_callback chk nw s)) = completions chk nw' s"
proof -
  let ?s' = "snd (preview_callback chk nw s)"
  have failed: "fst (preview_callback chk nw s) = Failed m"
    using assms
    by (auto simp add: preview_callback_def split: prod.splits sum.splits pyexn.splits)
  have ls: "last_state ?s' = last_state s"
    using failed by (simp add: preview_callback_last_state)
  have next_tick: "fst (preview_callback chk nw' ?s') = fst (preview_callback chk nw' s)"
    by (rule preview_callback_result_token) (rule preview_callback_TOKEN)
  have shown: "toasts ?s' = toasts s @ [StrOf m]"
    using failed by (simp add: preview_callback_toasts)
  have next_state:
    "last_state (snd (preview_callback chk nw' ?s')) = last_state (snd (preview_callback chk nw' s))"
    unfolding preview_callback_last_state [of chk nw' ?s']
      preview_callback_last_state [of chk nw' s] next_tick ls ..
  have next_shown: "completions chk nw' ?s' = completions chk nw' s"
    unfolding completions_eq next_tick ls ..
  from failed shown ls next_tick next_state next_shown show ?thesis
    by blast
qed

theorem failed_tick_keeps_last_state_witness:
  "py_len (TOKEN signed_in) = Inr 5
   \<and> fst (preview_queue timeout_server signed_in) = Inl (ApiError (JStr msg_connect_timeout))
   \<and> fst (preview_callback no_check timeout_server signed_in) = Failed (JStr msg_connect_timeout)
   \<and> toasts (snd (preview_callback no_check timeout_server signed_in))
       = [StrOf (JStr msg_connect_timeout)]
   \<and> last_state (snd (preview_callback no_check timeout_server signed_in)) = 0
   \<and> fst (preview_callback no_check (status_server ''CHARGING'')
             (snd (preview_callback no_check timeout_server signed_in)))
       = Polled (JStr ''CHARGING'')"
  using failed_tick_keeps_last_state
          [of signed_in 5 timeout_server "JStr msg_connect_timeout" no_check
              "status_server ''CHARGING''"]
  by (simp add: preview_queue_def api_get_sized Let_def timeout_server_def
        transport_message_def status_server_tick signed_in_def blank_start_def startup_def)

text \<open>
  C4. With the empty string as token, a tick returns at once: the state, which holds
  \<open>last_state\<close>, the labels, the toasts and the requests issued, is unchanged.
\<close>

theorem empty_token_tick_noop:
  "TOKEN s = JStr [] \<Longrightarrow> preview_callback chk nw s = (Skipped, s)"
  by (simp add: preview_callback_def)

theorem empty_token_tick_noop_witness:
  "TOKEN blank_start = JStr []
   \<and> preview_callback no_check (status_server ''CHARGING'') blank_start = (Skipped, blank_start)"
  using empty_token_tick_noop [of blank_start no_check "status_server ''CHARGING''"]
  by (simp add: blank_start_def startup_def)

text \<open>
  C5. For a response that is a dict with a \<open>code\<close>: if the code equals -1 and there is
  a \<open>message\<close>, \<open>api_get\<close> and \<open>api_post\<close> raise \<open>ApiError\<close> with that message as it is;
  if the code does not equal -1, they return \<open>data\<close>, or \<open>None\<close> when it is absent. The
  result is a sum, so a call never both returns and raises.
\<close>

theorem envelope_decoding:
  assumes "py_len (TOKEN s) = Inr n" and "map_of kvs ''code'' = Some c"
  shows "(py_eq_int c (- 1) \<and> map_of kvs ''message'' = Some m \<longrightarrow>
            fst (api_get (\<lambda>_. Body (JObj kvs)) path s) = Inl (ApiError m)
          \<and> fst (api_post (\<lambda>_. Body (JObj kvs)) path body s) = Inl (ApiError m))
       \<and> (\<not> py_eq_int c (- 1) \<longrightarrow>
            fst (api_get (\<lambda>_. Body (JObj kvs)) path s) =
              Inr (case map_of kvs ''data'' of None \<Rightarrow> JNull | Some d \<Rightarrow> d)
          \<and> fst (api_post (\<lambda>_. Body (JObj kvs)) path body s) =
              Inr (case map_of kvs ''data'' of None \<Rightarrow> JNull | Some d \<Rightarrow> d))"
  using assms
  by (simp add: api_get_sized api_post_sized Let_def envelope_def split: option.splits)

theorem envelope_decoding_witness:
  "py_len (TOKEN blank_start) = Inr 0
   \<and> fst (api_post (\<lambda>_. Body (JObj [(''code'', JInt (- 1)),
                                     (''message'', JStr msg_username_exists),
                                     (''data'', JNull)]))
             ''/user/register'' JNull blank_start)
       = Inl (ApiError (JStr msg_username_exists))
   \<and> fst (api_get (\<lambda>_. Body (JObj [(''code'', JInt 0), (''message'', JStr ''ok'')]))
             ''/user/end_charging_request'' blank_start)
       = Inr JNull"
  using envelope_decoding
          [of blank_start 0
              "[(''code'', JInt (- 1)), (''message'', JStr msg_username_exists),
                (''data'', JNull)]"
              "JInt (- 1)" "JStr msg_username_exists" "''/user/register''" JNull]
        envelope_decoding
          [of blank_start 0 "[(''code'', JInt 0), (''message'', JStr ''ok'')]" "JInt 0"
              JNull "''/user/end_charging_request''" JNull]
  by (simp add: blank_start_def startup_def)

text \<open>
  C6. When the request raises, \<open>api_get\<close> and \<open>api_post\<close> raise \<open>ApiError\<close> with one of
  five fixed messages, chosen by the class of the exception; a connection timeout gives
  the first of them.
\<close>

theorem transport_failure:
  assumes "py_len (TOKEN s) = Inr n"
  shows "fst (api_get (\<lambda>_. Raises e) path s) = Inl (ApiError (JStr (transport_message e)))
       \<and> fst (api_post (\<lambda>_. Raises e) path body s) = Inl (ApiError (JStr (transport_message e)))
       \<and> transport_message e \<in> {msg_connect_timeout, msg_connection_error, msg_read_timeout,
                                    msg_http_error, msg_network_error}
       \<and> transport_message ConnectTimeout = msg_connect_timeout
       \<and> transport_message ConnectionError = msg_connection_error
       \<and> transport_message ReadTimeout = msg_read_timeout
       \<and> transport_message HTTPError = msg_http_error
       \<and> transport_message OtherException = msg_network_error"
  using assms
  by (simp add: api_get_sized api_post_sized Let_def transport_message_def)

theorem transport_failure_witness:
  "py_len (TOKEN signed_in) = Inr 5
   \<and> fst (api_get (\<lambda>_. Raises ConnectTimeout) ''/time'' signed_in)
       = Inl (ApiError (JStr msg_connect_timeout))
   \<and> fst (api_post (\<lambda>_. Raises ReadTimeout) ''/login'' JNull signed_in)
       = Inl (ApiError (JStr msg_read_timeout))"
  using transport_failure [of signed_in 5 ConnectTimeout "''/time''" JNull]
        transport_failure [of signed_in 5 ReadTimeout "''/login''" JNull]
  by (simp add: signed_in_def blank_start_def startup_def transport_message_def)

text \<open>
  C7, as the program has it. When \<open>login\<close> returns a token and a flag: if the flag is
  true, the slot shows the toast asking for a user account and returns, and \<open>TOKEN\<close> and
  the two labels are what they were; if the flag is false, the slot shows the success
  toast, \<open>TOKEN\<close> becomes the returned token and the labels show the user role and the
  logged-in state. A later \<open>preview_queue\<close> then sends the token in its request if the
  length of the token is positive, sends no header if it is 0, and issues no request if
  the token has no length.
\<close>

theorem login_flag_decides_session:
  assumes "fst (login nw username password s) = Inr (token, is_admin)"
  shows "(truthy is_admin \<longrightarrow>
            fst (on_login_clicked nw username password s) = Returned
          \<and> toasts (snd (on_login_clicked nw username password s))
              = toasts s @ [Lit msg_use_user_account]
          \<and> TOKEN (snd (on_login_clicked nw username password s)) = TOKEN s
          \<and> user_role_label (snd (on_login_clicked nw username password s)) = user_role_label s
          \<and> user_state_label (snd (on_login_clicked nw username password s))
              = user_state_label s)
       \<and> (\<not> truthy is_admin \<longrightarrow>
            fst (on_login_clicked nw username password s) = Returned
          \<and> toasts (snd (on_login_clicked nw username password s)) = toasts s @ [Lit msg_login_ok]
          \<and> TOKEN (snd (on_login_clicked nw username password s)) = token
          \<and> user_role_label (snd (on_login_clicked nw username password s)) = Lit ''USER''
          \<and> user_state_label (snd (on_login_clicked nw username password s)) = Lit msg_logged_in
          \<and> sent (snd (preview_queue nw' (snd (on_login_clicked nw username password s))))
              = sent (snd (on_login_clicked nw username password s))
                @ (case py_len token of
                     Inl e \<Rightarrow> []
                   | Inr k \<Rightarrow>
                       [\<lparr> req_method = GET, req_url = BASE_URL @ ''/user/preview_queue'',
                          req_auth = (if 0 < k then Some token else None),
                          req_json = None \<rparr>]))"
proof -
  obtain s1 where lg: "login nw username password s = (Inr (token, is_admin), s1)"
    using assms by (cases "login nw username password s") simp
  from login_frame [of nw username password s] lg
  have s1: "toasts s1 = toasts s \<and> TOKEN s1 = TOKEN s
            \<and> user_role_label s1 = user_role_label s \<and> user_state_label s1 = user_state_label s"
    by auto
  show ?thesis
  proof (cases "py_len token")
    case (Inl e)
    with lg s1 show ?thesis
      by (simp add: on_login_clicked_def showMessage_def preview_queue_def api_get_unsized)
  next
    case (Inr k)
    with lg s1 show ?thesis
      by (simp add: on_login_clicked_def showMessage_def preview_queue_def api_get_sized Let_def)
  qed
qed

theorem login_flag_decides_session_witness:
  "fst (login (login_server (JStr ''token'') (JBool True)) ''root'' ''pw'' blank_start)
     = Inr (JStr ''token'', JBool True)
   \<and> toasts (snd (on_login_clicked (login_server (JStr ''token'') (JBool True))
                    ''root'' ''pw'' blank_start)) = [Lit msg_use_user_account]
   \<and> TOKEN (snd (on_login_clicked (login_server (JStr ''token'') (JBool True))
                   ''root'' ''pw'' blank_start)) = JStr []
   \<and> fst (login (login_server (JStr ''token'') (JBool False)) ''ann'' ''pw'' blank_start)
     = Inr (JStr ''token'', JBool False)
   \<and> toasts (snd (on_login_clicked (login_server (JStr ''token'') (JBool False))
                    ''ann'' ''pw'' blank_start)) = [Lit msg_login_ok]
   \<and> TOKEN (snd (on_login_clicked (login_server (JStr ''token'') (JBool False))
                   ''ann'' ''pw'' blank_start)) = JStr ''token''
   \<and> map req_auth
        (sent (snd (preview_queue timeout_server
                      (snd (on_login_clicked (login_server (JStr ''token'') (JBool False))
                              ''ann'' ''pw'' blank_start)))))
     = [None, Some (JStr ''token'')]"
proof -
  have admin: "fst (login (login_server (JStr ''token'') (JBool True)) ''root'' ''pw'' blank_start)
                 = Inr (JStr ''token'', JBool True)"
    by (simp add: login_def api_post_sized Let_def login_server_def ok_envelope_def
          envelope_def blank_start_def startup_def)
  have user: "fst (login (login_server (JStr ''token'') (JBool False)) ''ann'' ''pw'' blank_start)
                = Inr (JStr ''token'', JBool False)"
    by (simp add: login_def api_post_sized Let_def login_server_def ok_envelope_def
          envelope_def blank_start_def startup_def)
  have issued:
    "sent (snd (on_login_clicked (login_server (JStr ''token'') (JBool False))
                  ''ann'' ''pw'' blank_start))
       = [\<lparr> req_method = POST, req_url = BASE_URL @ ''/login'', req_auth = None,
            req_json = Some (JObj [(''username'', JStr ''ann''), (''password'', JStr ''pw'')]) \<rparr>]"
    by (simp add: on_login_clicked_def login_def api_post_sized Let_def login_server_def
          ok_envelope_def envelope_def showMessage_def blank_start_def startup_def)
  from login_flag_decides_session [OF admin]
    login_flag_decides_session [OF user, of timeout_server]
    admin user issued
  show ?thesis
    by (simp add: blank_start_def startup_def)
qed

text \<open>
  C7 as stated fails: a login that succeeds with the empty string as token and a false
  flag shows the logged-in state, and the next \<open>preview_queue\<close> attaches no token.
\<close>

theorem empty_token_login_attaches_nothing:
  "fst (login (login_server (JStr []) (JBool False)) ''ann'' ''pw'' blank_start)
     = Inr (JStr [], JBool False)
   \<and> user_state_label (snd (on_login_clicked (login_server (JStr []) (JBool False))
                              ''ann'' ''pw'' blank_start)) = Lit msg_logged_in
   \<and> TOKEN (snd (on_login_clicked (login_server (JStr []) (JBool False))
                   ''ann'' ''pw'' blank_start)) = JStr []
   \<and> map req_auth
        (sent (snd (preview_queue timeout_server
                      (snd (on_login_clicked (login_server (JStr []) (JBool False))
                              ''ann'' ''pw'' blank_start)))))
     = [None, None]"
  by (simp add: on_login_clicked_def login_def api_post_sized api_get_sized preview_queue_def
        Let_def login_server_def ok_envelope_def envelope_def showMessage_def
        blank_start_def startup_def)

text \<open>
  C8. The request of a submission or of an edit carries \<open>charge_mode\<close> \<open>F\<close> when the
  label is the fast one and \<open>T\<close> for every other label.
\<close>

theorem mode_label_encoding:
  assumes "py_len (TOKEN s) = Inr n"
  shows "sent (snd (on_submit_clicked nw mode_text require_amount battery_capacity s)) =
           sent s @
           [\<lparr> req_method = POST, req_url = BASE_URL @ ''/user/submit_charging_request'',
              req_auth = (if 0 < n then Some (TOKEN s) else None),
              req_json = Some (JObj [(''charge_mode'',
                                       JStr (if mode_text = label_fast then ''F'' else ''T'')),
                                     (''require_amount'', JStr require_amount),
                                     (''battery_size'', JStr battery_capacity)]) \<rparr>]
       \<and> sent (snd (on_edit_request_clicked nw mode_text require_amount s)) =
           sent s @
           [\<lparr> req_method = POST, req_url = BASE_URL @ ''/user/edit_charging_request'',
              req_auth = (if 0 < n then Some (TOKEN s) else None),
              req_json = Some (JObj [(''charge_mode'',
                                       JStr (if mode_text = label_fast then ''F'' else ''T'')),
                                     (''require_amount'', JStr require_amount)]) \<rparr>]"
  using assms
  by (simp add: on_submit_clicked_sent on_edit_request_clicked_sent
        submit_charging_request_snd edit_charging_request_snd api_post_sized Let_def)

theorem mode_label_encoding_witness:
  "py_len (TOKEN signed_in) = Inr 5
   \<and> map req_json (sent (snd (on_submit_clicked timeout_server label_fast ''50'' ''60'' signed_in)))
       = [Some (JObj [(''charge_mode'', JStr ''F''), (''require_amount'', JStr ''50''),
                      (''battery_size'', JStr ''60'')])]
   \<and> map req_json (sent (snd (on_edit_request_clicked timeout_server label_slow ''50'' signed_in)))
       = [Some (JObj [(''charge_mode'', JStr ''T''), (''require_amount'', JStr ''50'')])]"
  using mode_label_encoding [of signed_in 5 timeout_server label_fast "''50''" "''60''"]
        mode_label_encoding [of signed_in 5 timeout_server label_slow "''50''" "''60''"]
  by (simp add: signed_in_def blank_start_def startup_def label_fast_def label_slow_def)

text \<open>
  C9. When \<open>len(TOKEN)\<close> is defined, \<open>api_get\<close> and \<open>api_post\<close> issue one request; it
  carries the \<open>Authorization\<close> header made of the token if the length is positive, and
  no header if it is 0, as for the empty string.
\<close>

theorem authorization_iff_nonempty:
  assumes "py_len (TOKEN s) = Inr n"
  shows "sent (snd (api_get nw path s)) =
           sent s @ [\<lparr> req_method = GET, req_url = BASE_URL @ path,
                       req_auth = (if 0 < n then Some (TOKEN s) else None),
                       req_json = None \<rparr>]
       \<and> sent (snd (api_post nw path body s)) =
           sent s @ [\<lparr> req_method = POST, req_url = BASE_URL @ path,
                       req_auth = (if 0 < n then Some (TOKEN s) else None),
                       req_json = Some body \<rparr>]"
  using assms by (simp add: api_get_sized api_post_sized Let_def)

theorem authorization_iff_nonempty_witness:
  "py_len (TOKEN signed_in) = Inr 5
   \<and> map req_auth (sent (snd (api_get timeout_server ''/time'' signed_in)))
       = [Some (JStr ''token'')]
   \<and> py_len (TOKEN blank_start) = Inr 0
   \<and> map req_auth (sent (snd (api_post timeout_server ''/login'' JNull blank_start))) = [None]"
  using authorization_iff_nonempty [of signed_in 5 timeout_server "''/time''" JNull]
        authorization_iff_nonempty [of blank_start 0 timeout_server "''/login''" JNull]
  by (simp add: signed_in_def blank_start_def startup_def)

text \<open>
  C10. When the response is not a dict with a \<open>code\<close>, \<open>api_get\<close> and \<open>api_post\<close> raise
  \<open>KeyError\<close> or \<open>TypeError\<close>, not \<open>ApiError\<close>: the code is read after the \<open>try\<close> block.
\<close>

theorem response_without_code_raises_raw:
  assumes "py_len (TOKEN s) = Inr n"
    and "\<forall>kvs. resp = JObj kvs \<longrightarrow> map_of kvs ''code'' = None"
  shows "fst (api_get (\<lambda>_. Body resp) path s) = fst (api_post (\<lambda>_. Body resp) path body s)
       \<and> (fst (api_get (\<lambda>_. Body resp) path s) = Inl (KeyError ''code'')
          \<or> fst (api_get (\<lambda>_. Body resp) path s) = Inl TypeError)"
  using assms
  by (cases resp) (simp_all add: api_get_sized api_post_sized Let_def envelope_def)

theorem response_without_code_raises_raw_witness:
  "py_len (TOKEN signed_in) = Inr 5
   \<and> fst (api_get (\<lambda>_. Body (JArr [])) ''/time'' signed_in) = Inl TypeError
   \<and> fst (api_post (\<lambda>_. Body (JObj [(''detail'', JStr ''Not Found'')])) ''/login'' JNull
             signed_in) = Inl (KeyError ''code'')"
  using response_without_code_raises_raw [of signed_in 5 "JArr []" "''/time''" JNull]
        response_without_code_raises_raw
          [of signed_in 5 "JObj [(''detail'', JStr ''Not Found'')]" "''/login''" JNull]
  by (simp add: signed_in_def blank_start_def startup_def api_get_sized api_post_sized
        Let_def envelope_def)

end
